theory Spec2Isabelle
  imports Main "HOL-Library.Word"
begin

unbundle bit_operations_syntax

section \<open>JavaScript strings and values\<close>

text \<open>
  A JavaScript string is modelled as a \<open>string\<close> (a list of 8-bit characters), one
  character per code unit; the model is exact on text whose code units are below 256,
  which covers every literal of the service. An absent value (\<open>null\<close> or
  \<open>undefined\<close>) of a field that the code reads through \<open>??\<close> or \<open>?.\<close> is \<open>None\<close>.
\<close>

text \<open>\<open>Array.prototype.join\<close> on an array of strings.\<close>

fun join :: "string \<Rightarrow> string list \<Rightarrow> string" where
  "join sep [] = []"
| "join sep [x] = x"
| "join sep (x # y # ys) = x @ sep @ join sep (y # ys)"

text \<open>
  \<open>String.prototype.trim\<close>: the white space and line terminators of ECMAScript that
  are code units below 256.
\<close>

definition js_space :: "char \<Rightarrow> bool" where
  "js_space c \<longleftrightarrow> c \<in> set [CHR 0x09, CHR 0x0A, CHR 0x0B, CHR 0x0C, CHR 0x0D, CHR 0x20, CHR 0xA0]"

definition js_trim :: "string \<Rightarrow> string" where
  "js_trim s = rev (dropWhile js_space (rev (dropWhile js_space s)))"

text \<open>\<open>String.prototype.indexOf\<close> for one character; \<open>None\<close> is the result \<open>-1\<close>.\<close>

fun index_of :: "char \<Rightarrow> string \<Rightarrow> nat option" where
  "index_of c [] = None"
| "index_of c (x # xs) = (if x = c then Some 0 else map_option Suc (index_of c xs))"

text \<open>\<open>s.slice(i, j)\<close> for \<open>0 \<le> i \<le> j\<close>.\<close>

definition slice :: "string \<Rightarrow> nat \<Rightarrow> nat \<Rightarrow> string" where
  "slice s i j = take (j - i) (drop i s)"

text \<open>Decimal numerals, as \<open>String(n)\<close> prints an integer.\<close>

definition digit_char :: "nat \<Rightarrow> char" where
  "digit_char d = char_of (48 + d)"

function dec_nat :: "nat \<Rightarrow> string" where
  "dec_nat n = (if n < 10 then [digit_char n] else dec_nat (n div 10) @ [digit_char (n mod 10)])"
  by pat_completeness auto
termination
  by (relation "measure id") auto

definition dec_int :: "int \<Rightarrow> string" where
  "dec_int i = (if i < 0 then CHR ''-'' # dec_nat (nat (- i)) else dec_nat (nat i))"

definition is_digit :: "char \<Rightarrow> bool" where
  "is_digit c \<longleftrightarrow> c \<in> set ''0123456789''"

definition digit_val :: "char \<Rightarrow> nat" where
  "digit_val c = of_char c - 48"

definition digits_val :: "string \<Rightarrow> nat" where
  "digits_val ds = foldl (\<lambda>a c. 10 * a + digit_val c) 0 ds"

subsection \<open>JSON values\<close>

text \<open>
  The values \<open>JSON.parse\<close> builds. A number is carried as its literal text: the double
  it denotes is not modelled. An object is its own properties in insertion order. An
  array carries, besides its elements, the named properties that were assigned to it
  afterwards (\<open>arr.description = ...\<close>); \<open>JSON.parse\<close> builds arrays without any.
\<close>

datatype json =
    JNull
  | JBool bool
  | JNum string
  | JStr string
  | JArr "json list" "(string \<times> json) list"
  | JObj "(string \<times> json) list"

text \<open>Truthiness (\<open>ToBoolean\<close>): a number is falsy when all digits of its mantissa are zero.\<close>

definition num_is_zero :: "string \<Rightarrow> bool" where
  "num_is_zero l \<longleftrightarrow> list_all (\<lambda>c. c \<in> set ''-0.'') (takeWhile (\<lambda>c. c \<notin> set ''eE'') l)"

fun truthy :: "json \<Rightarrow> bool" where
  "truthy JNull = False"
| "truthy (JBool b) = b"
| "truthy (JNum l) = (\<not> num_is_zero l)"
| "truthy (JStr s) = (s \<noteq> [])"
| "truthy (JArr xs ex) = True"
| "truthy (JObj kvs) = True"

text \<open>\<open>typeof v === "object"\<close> together with \<open>v\<close> being truthy: objects and arrays.\<close>

fun is_object :: "json \<Rightarrow> bool" where
  "is_object (JArr xs ex) = True"
| "is_object (JObj kvs) = True"
| "is_object v = False"

text \<open>
  Reading an own property \<open>v[k]\<close> for a key \<open>k\<close> that is not an index; \<open>None\<close> is
  \<open>undefined\<close>. The keys the service reads this way (\<open>choices\<close>, \<open>message\<close>,
  \<open>content\<close>, \<open>text\<close>, \<open>rawText\<close>, \<open>description\<close>, \<open>socials\<close>) are not
  properties of any built-in prototype, so own properties decide the result, and
  \<open>k in v\<close> is the same test.
\<close>

fun js_get :: "json \<Rightarrow> string \<Rightarrow> json option" where
  "js_get (JObj kvs) k = map_of kvs k"
| "js_get (JArr xs ex) k = map_of ex k"
| "js_get v k = None"

text \<open>Reading \<open>v[0]\<close>: the first element of an array, the first code unit of a string.\<close>

fun js_get0 :: "json \<Rightarrow> json option" where
  "js_get0 (JArr xs ex) = (case xs of [] \<Rightarrow> None | x # _ \<Rightarrow> Some x)"
| "js_get0 (JObj kvs) = map_of kvs ''0''"
| "js_get0 (JStr s) = (case s of [] \<Rightarrow> None | c # _ \<Rightarrow> Some (JStr [c]))"
| "js_get0 v = None"

text \<open>
  Assigning \<open>v[k] = x\<close> on an object or an array: an existing property keeps its
  place, a new one goes last.
\<close>

fun put_prop :: "(string \<times> json) list \<Rightarrow> string \<Rightarrow> json \<Rightarrow> (string \<times> json) list" where
  "put_prop [] k x = [(k, x)]"
| "put_prop ((k', y) # kvs) k x = (if k' = k then (k', x) # kvs else (k', y) # put_prop kvs k x)"

fun js_set :: "json \<Rightarrow> string \<Rightarrow> json \<Rightarrow> json" where
  "js_set (JObj kvs) k x = JObj (put_prop kvs k x)"
| "js_set (JArr xs ex) k x = JArr xs (put_prop ex k x)"
| "js_set v k x = v"

subsection \<open>\<open>JSON.stringify\<close>\<close>

definition hex_digit :: "nat \<Rightarrow> char" where
  "hex_digit d = (if d < 10 then char_of (48 + d) else char_of (87 + d))"

definition json_escape :: "char \<Rightarrow> string" where
  "json_escape c =
     (if c = CHR 0x22 then [CHR 0x5C, CHR 0x22]
      else if c = CHR 0x5C then [CHR 0x5C, CHR 0x5C]
      else if c = CHR 0x08 then [CHR 0x5C, CHR ''b'']
      else if c = CHR 0x0C then [CHR 0x5C, CHR ''f'']
      else if c = CHR 0x0A then [CHR 0x5C, CHR ''n'']
      else if c = CHR 0x0D then [CHR 0x5C, CHR ''r'']
      else if c = CHR 0x09 then [CHR 0x5C, CHR ''t'']
      else if (of_char c :: nat) < 32
        then [CHR 0x5C, CHR ''u'', CHR ''0'', CHR ''0'', hex_digit (of_char c div 16), hex_digit (of_char c mod 16)]
      else [c])"

definition json_quote :: "string \<Rightarrow> string" where
  "json_quote s = [CHR 0x22] @ concat (map json_escape s) @ [CHR 0x22]"

text \<open>
  \<open>JSON.stringify(v)\<close> without indentation. The named properties of an array are not
  serialised: only its elements are.
\<close>

fun JSON_stringify :: "json \<Rightarrow> string" where
  "JSON_stringify JNull = ''null''"
| "JSON_stringify (JBool b) = (if b then ''true'' else ''false'')"
| "JSON_stringify (JNum l) = l"
| "JSON_stringify (JStr s) = json_quote s"
| "JSON_stringify (JArr xs ex) = ''['' @ join '','' (map JSON_stringify xs) @ '']''"
| "JSON_stringify (JObj kvs) =
     ''{'' @ join '','' (map (\<lambda>(k, v). json_quote k @ '':'' @ JSON_stringify v) kvs) @ ''}''"

text \<open>
  \<open>String(v)\<close> (\<open>ToString\<close>) on a JSON value: an array joins its elements with commas,
  printing \<open>null\<close> as the empty string; an object prints as \<open>[object Object]\<close>.
\<close>

fun js_to_string :: "json \<Rightarrow> string" where
  "js_to_string JNull = ''null''"
| "js_to_string (JBool b) = (if b then ''true'' else ''false'')"
| "js_to_string (JNum l) = l"
| "js_to_string (JStr s) = s"
| "js_to_string (JArr xs ex) = join '','' (map (\<lambda>x. if x = JNull then [] else js_to_string x) xs)"
| "js_to_string (JObj kvs) = ''[object Object]''"

subsection \<open>\<open>JSON.parse\<close>\<close>

text \<open>
  \<open>JSON.parse\<close> is the runtime's; it is modelled after the JSON grammar (ECMA-404):
  white space is space, tab, line feed and carriage return; a string has no raw control
  character and the escapes of the grammar (quote, backslash, slash, \<open>b f n r t\<close>, and
  \<open>u\<close> with four hexadecimal digits); a number has no
  leading zero; a repeated key keeps its first place and takes the last value. The
  recursion on nested values is bounded by a counter that starts above twice the length
  of the text, which no nesting of that text can use up.
\<close>

definition json_ws :: "char \<Rightarrow> bool" where
  "json_ws c \<longleftrightarrow> c \<in> set [CHR 0x20, CHR 0x09, CHR 0x0A, CHR 0x0D]"

definition skip_ws :: "string \<Rightarrow> string" where
  "skip_ws s = dropWhile json_ws s"

definition hex_val :: "char \<Rightarrow> nat option" where
  "hex_val c =
     (if is_digit c then Some (of_char c - 48)
      else if c \<in> set ''abcdef'' then Some (of_char c - 87)
      else if c \<in> set ''ABCDEF'' then Some (of_char c - 55)
      else None)"

definition hex4 :: "string \<Rightarrow> nat option" where
  "hex4 s =
     (case map hex_val (take 4 s) of
        [Some a, Some b, Some c, Some d] \<Rightarrow> Some (((a * 16 + b) * 16 + c) * 16 + d)
      | _ \<Rightarrow> None)"

definition unescape :: "char \<Rightarrow> char option" where
  "unescape e =
     (if e = CHR 0x22 then Some (CHR 0x22)
      else if e = CHR 0x5C then Some (CHR 0x5C)
      else if e = CHR ''/'' then Some (CHR ''/'')
      else if e = CHR ''b'' then Some (CHR 0x08)
      else if e = CHR ''f'' then Some (CHR 0x0C)
      else if e = CHR ''n'' then Some (CHR 0x0A)
      else if e = CHR ''r'' then Some (CHR 0x0D)
      else if e = CHR ''t'' then Some (CHR 0x09)
      else None)"

fun parse_chars :: "string \<Rightarrow> (string \<times> string) option" where
  "parse_chars [] = None"
| "parse_chars (c # cs) =
     (if c = CHR 0x22 then Some ([], cs)
      else if c = CHR 0x5C then
        (case cs of
           [] \<Rightarrow> None
         | e # cs' \<Rightarrow>
             (if e = CHR ''u'' then
                (case hex4 cs' of
                   None \<Rightarrow> None
                 | Some u \<Rightarrow>
                     (if u < 256
                      then map_option (\<lambda>(s, r). (char_of u # s, r)) (parse_chars (drop 4 cs'))
                      else None))
              else
                (case unescape e of
                   None \<Rightarrow> None
                 | Some x \<Rightarrow> map_option (\<lambda>(s, r). (x # s, r)) (parse_chars cs'))))
      else if (of_char c :: nat) < 32 then None
      else map_option (\<lambda>(s, r). (c # s, r)) (parse_chars cs))"

definition parse_digits :: "string \<Rightarrow> (string \<times> string) option" where
  "parse_digits s =
     (let ds = takeWhile is_digit s in if ds = [] then None else Some (ds, dropWhile is_digit s))"

definition parse_int_part :: "string \<Rightarrow> (string \<times> string) option" where
  "parse_int_part s =
     (case s of
        [] \<Rightarrow> None
      | c # cs \<Rightarrow> if c = CHR ''0'' then Some ([c], cs) else parse_digits s)"

definition parse_frac :: "string \<Rightarrow> (string \<times> string) option" where
  "parse_frac s =
     (case s of
        [] \<Rightarrow> Some ([], s)
      | c # cs \<Rightarrow>
          if c = CHR ''.'' then map_option (\<lambda>(ds, r). (c # ds, r)) (parse_digits cs)
          else Some ([], s))"

definition parse_exp :: "string \<Rightarrow> (string \<times> string) option" where
  "parse_exp s =
     (case s of
        [] \<Rightarrow> Some ([], s)
      | c # cs \<Rightarrow>
          if c \<in> set ''eE'' then
            (case cs of
               [] \<Rightarrow> None
             | g # cs' \<Rightarrow>
                 if g \<in> set ''+-'' then map_option (\<lambda>(ds, r). (c # g # ds, r)) (parse_digits cs')
                 else map_option (\<lambda>(ds, r). (c # ds, r)) (parse_digits cs))
          else Some ([], s))"

definition parse_number :: "string \<Rightarrow> (string \<times> string) option" where
  "parse_number s =
     (let (sign, s0) = (case s of [] \<Rightarrow> ([], s) | c # cs \<Rightarrow> if c = CHR ''-'' then ([c], cs) else ([], s)) in
      case parse_int_part s0 of
        None \<Rightarrow> None
      | Some (ip, s1) \<Rightarrow>
          (case parse_frac s1 of
             None \<Rightarrow> None
           | Some (fp, s2) \<Rightarrow>
               (case parse_exp s2 of
                  None \<Rightarrow> None
                | Some (ep, s3) \<Rightarrow> Some (sign @ ip @ fp @ ep, s3))))"

definition strip_prefix :: "string \<Rightarrow> string \<Rightarrow> string option" where
  "strip_prefix p s = (if take (length p) s = p then Some (drop (length p) s) else None)"

fun parse_value :: "nat \<Rightarrow> string \<Rightarrow> (json \<times> string) option"
  and parse_elements :: "nat \<Rightarrow> json list \<Rightarrow> string \<Rightarrow> (json \<times> string) option"
  and parse_members :: "nat \<Rightarrow> (string \<times> json) list \<Rightarrow> string \<Rightarrow> (json \<times> string) option"
where
  "parse_value 0 s = None"
| "parse_value (Suc n) s =
     (case skip_ws s of
        [] \<Rightarrow> None
      | c # cs \<Rightarrow>
          if c = CHR ''{'' then
            (case skip_ws cs of
               [] \<Rightarrow> None
             | d # ds \<Rightarrow> if d = CHR ''}'' then Some (JObj [], ds) else parse_members n [] cs)
          else if c = CHR ''['' then
            (case skip_ws cs of
               [] \<Rightarrow> None
             | d # ds \<Rightarrow> if d = CHR '']'' then Some (JArr [] [], ds) else parse_elements n [] cs)
          else if c = CHR 0x22 then map_option (\<lambda>(x, r). (JStr x, r)) (parse_chars cs)
          else if c = CHR ''t'' then map_option (\<lambda>r. (JBool True, r)) (strip_prefix ''true'' (c # cs))
          else if c = CHR ''f'' then map_option (\<lambda>r. (JBool False, r)) (strip_prefix ''false'' (c # cs))
          else if c = CHR ''n'' then map_option (\<lambda>r. (JNull, r)) (strip_prefix ''null'' (c # cs))
          else map_option (\<lambda>(l, r). (JNum l, r)) (parse_number (c # cs)))"
| "parse_elements 0 acc s = None"
| "parse_elements (Suc n) acc s =
     (case parse_value n s of
        None \<Rightarrow> None
      | Some (v, r) \<Rightarrow>
          (case skip_ws r of
             [] \<Rightarrow> None
           | c # cs \<Rightarrow>
               if c = CHR '','' then parse_elements n (acc @ [v]) cs
               else if c = CHR '']'' then Some (JArr (acc @ [v]) [], cs)
               else None))"
| "parse_members 0 acc s = None"
| "parse_members (Suc n) acc s =
     (case skip_ws s of
        [] \<Rightarrow> None
      | q # qs \<Rightarrow>
          if q = CHR 0x22 then
            (case parse_chars qs of
               None \<Rightarrow> None
             | Some (k, r) \<Rightarrow>
                 (case skip_ws r of
                    [] \<Rightarrow> None
                  | c # cs \<Rightarrow>
                      if c = CHR '':'' then
                        (case parse_value n cs of
                           None \<Rightarrow> None
                         | Some (v, r') \<Rightarrow>
                             (case skip_ws r' of
                                [] \<Rightarrow> None
                              | e # es \<Rightarrow>
                                  if e = CHR '','' then parse_members n (put_prop acc k v) es
                                  else if e = CHR ''}'' then Some (JObj (put_prop acc k v), es)
                                  else None))
                      else None))
          else None)"

definition JSON_parse :: "string \<Rightarrow> json option" where
  "JSON_parse s =
     (case parse_value (2 * length s + 2) s of
        None \<Rightarrow> None
      | Some (v, r) \<Rightarrow> if skip_ws r = [] then Some v else None)"

section \<open>Keys of the store\<close>

subsection \<open>SHA-1\<close>

text \<open>
  \<open>crypto.createHash("sha1")\<close> is Node's; it is modelled after FIPS 180-4 on the
  bytes of the string. A byte is a natural number below 256.
\<close>

fun be_bytes :: "nat \<Rightarrow> nat \<Rightarrow> nat list" where
  "be_bytes 0 n = []"
| "be_bytes (Suc k) n = be_bytes k (n div 256) @ [n mod 256]"

definition sha1_pad :: "nat list \<Rightarrow> nat list" where
  "sha1_pad m =
     m @ [128] @ replicate ((119 - length m mod 64) mod 64) 0 @ be_bytes 8 (8 * length m)"

definition be32 :: "nat list \<Rightarrow> 32 word" where
  "be32 bs = foldl (\<lambda>a b. push_bit 8 a + of_nat b) 0 bs"

fun chunks :: "nat \<Rightarrow> nat \<Rightarrow> 'a list \<Rightarrow> 'a list list" where
  "chunks 0 k xs = []"
| "chunks (Suc n) k xs = take k xs # chunks n k (drop k xs)"

text \<open>The message schedule, newest word first.\<close>

fun sha1_schedule :: "nat \<Rightarrow> 32 word list \<Rightarrow> 32 word list" where
  "sha1_schedule 0 ws = ws"
| "sha1_schedule (Suc n) ws =
     sha1_schedule n (word_rotl 1 (ws ! 2 XOR ws ! 7 XOR ws ! 13 XOR ws ! 15) # ws)"

type_synonym sha1_state = "32 word \<times> 32 word \<times> 32 word \<times> 32 word \<times> 32 word"

definition sha1_f :: "nat \<Rightarrow> 32 word \<Rightarrow> 32 word \<Rightarrow> 32 word \<Rightarrow> 32 word" where
  "sha1_f t b c d =
     (if t < 20 then (b AND c) OR (NOT b AND d)
      else if t < 40 then b XOR c XOR d
      else if t < 60 then (b AND c) OR (b AND d) OR (c AND d)
      else b XOR c XOR d)"

definition sha1_k :: "nat \<Rightarrow> 32 word" where
  "sha1_k t =
     (if t < 20 then 0x5A827999 else if t < 40 then 0x6ED9EBA1
      else if t < 60 then 0x8F1BBCDC else 0xCA62C1D6)"

fun sha1_rounds :: "nat \<Rightarrow> 32 word list \<Rightarrow> sha1_state \<Rightarrow> sha1_state" where
  "sha1_rounds t [] st = st"
| "sha1_rounds t (w # ws) (a, b, c, d, e) =
     sha1_rounds (Suc t) ws (word_rotl 5 a + sha1_f t b c d + e + sha1_k t + w, a, word_rotl 30 b, c, d)"

definition sha1_block :: "sha1_state \<Rightarrow> nat list \<Rightarrow> sha1_state" where
  "sha1_block st blk =
     (let ws = rev (sha1_schedule 64 (rev (map be32 (chunks 16 4 blk))));
          (a, b, c, d, e) = st;
          (a', b', c', d', e') = sha1_rounds 0 ws st
      in (a + a', b + b', c + c', d + d', e + e'))"

definition sha1_digest :: "nat list \<Rightarrow> sha1_state" where
  "sha1_digest m =
     (let p = sha1_pad m in
      foldl sha1_block (0x67452301, 0xEFCDAB89, 0x98BADCFE, 0x10325476, 0xC3D2E1F0)
        (chunks (length p div 64) 64 p))"

definition hex32 :: "32 word \<Rightarrow> string" where
  "hex32 w = map (\<lambda>i. hex_digit (unat (drop_bit (4 * (7 - i)) w AND 15))) [0, 1, 2, 3, 4, 5, 6, 7]"

text \<open>The digest in lower-case hexadecimal, \<open>digest("hex")\<close>.\<close>

definition sha1_hex :: "string \<Rightarrow> string" where
  "sha1_hex s = (case sha1_digest (map of_char s) of (a, b, c, d, e) \<Rightarrow> concat (map hex32 [a, b, c, d, e]))"

text \<open>\<open>sha1\<close> of the service: the first 12 hexadecimal characters of the digest.\<close>

definition sha1 :: "string \<Rightarrow> string" where
  "sha1 s = take 12 (sha1_hex s)"

subsection \<open>The three key builders\<close>

text \<open>
  The template literal that \<open>buildCacheKey\<close> hashes:
  \<^verbatim>\<open>${productId}|${vibe}|${format}|${keywords ?? ""}|${includeSocials}\<close>.
  \<open>keywords\<close> may be \<open>null\<close> (\<open>None\<close>); \<open>includeSocials\<close> is a boolean and prints as
  \<open>true\<close> or \<open>false\<close>.
\<close>

definition cacheKeyText :: "string \<Rightarrow> string \<Rightarrow> string \<Rightarrow> string option \<Rightarrow> bool \<Rightarrow> string" where
  "cacheKeyText productId vibe format keywords includeSocials =
     productId @ ''|'' @ vibe @ ''|'' @ format @ ''|''
       @ (case keywords of None \<Rightarrow> [] | Some k \<Rightarrow> k) @ ''|''
       @ (if includeSocials then ''true'' else ''false'')"

definition buildCacheKey :: "string \<Rightarrow> string \<Rightarrow> string \<Rightarrow> string option \<Rightarrow> bool \<Rightarrow> string" where
  "buildCacheKey productId vibe format keywords includeSocials =
     ''deepseek:cache:'' @ sha1 (cacheKeyText productId vibe format keywords includeSocials)"

text \<open>
  \<open>usageKey\<close> reads the clock: \<open>month\<close> is \<open>new Date().toISOString().slice(0, 7)\<close>,
  the current year and month.
\<close>

definition usageKey :: "string \<Rightarrow> string \<Rightarrow> string" where
  "usageKey month shop = ''deepseek:usage:'' @ shop @ '':'' @ month"

definition rateLimitKey :: "string \<Rightarrow> string" where
  "rateLimitKey shop = ''deepseek:ratelimit:'' @ shop"

section \<open>Response extractor\<close>

text \<open>A thrown JavaScript error: its \<open>name\<close> and its \<open>message\<close>.\<close>

datatype js_error = JsError (err_name: string) (message: string)

abbreviation Error :: "string \<Rightarrow> js_error" where
  "Error m \<equiv> JsError ''Error'' m"

text \<open>\<open>text.replace(/```(json)?/g, "")\<close>: every fence, with the \<open>json\<close> that follows it.\<close>

definition fence :: string where
  "fence = [CHR 0x60, CHR 0x60, CHR 0x60]"

fun strip_fences :: "string \<Rightarrow> string" where
  "strip_fences [] = []"
| "strip_fences (c # cs) =
     (if take 3 (c # cs) = fence then
        (if take 4 (drop 2 cs) = ''json'' then strip_fences (drop 6 cs)
         else strip_fences (drop 2 cs))
      else c # strip_fences cs)"

text \<open>
  The loop of \<open>extractJsonFromText\<close> over \<open>i = start, ..., cleaned.length - 1\<close>: the
  last argument is what is left of \<open>cleaned\<close> from index \<open>i\<close> on. \<open>depth\<close> is a
  JavaScript number and may go below zero.
\<close>

fun scan_balanced :: "string \<Rightarrow> nat \<Rightarrow> nat \<Rightarrow> int \<Rightarrow> string \<Rightarrow> json option" where
  "scan_balanced cleaned start i depth [] = None"
| "scan_balanced cleaned start i depth (ch # rest) =
     (if ch = CHR ''{'' then scan_balanced cleaned start (i + 1) (depth + 1) rest
      else if ch = CHR ''}'' then
        (if depth - 1 = 0 then
           (case JSON_parse (slice cleaned start (i + 1)) of
              Some v \<Rightarrow> Some v
            | None \<Rightarrow> scan_balanced cleaned start (i + 1) (depth - 1) rest)
         else scan_balanced cleaned start (i + 1) (depth - 1) rest)
      else scan_balanced cleaned start (i + 1) depth rest)"

text \<open>
  \<open>cleaned.match(/\{[\s\S]*\}/)\<close>: from the first opening brace to the last closing
  brace after it.
\<close>

definition last_index_of :: "char \<Rightarrow> string \<Rightarrow> nat option" where
  "last_index_of c s = map_option (\<lambda>r. length s - 1 - r) (index_of c (rev s))"

definition greedy_braces :: "string \<Rightarrow> string option" where
  "greedy_braces s =
     (case index_of (CHR ''{'') s of
        None \<Rightarrow> None
      | Some i \<Rightarrow>
          (case last_index_of (CHR ''}'') (drop i s) of
             None \<Rightarrow> None
           | Some j \<Rightarrow> Some (slice s i (i + j + 1))))"

definition extractJsonFromText :: "string \<Rightarrow> js_error + json" where
  "extractJsonFromText raw =
     (if raw = [] then Inl (Error ''Empty response'')
      else
        let cleaned = js_trim (strip_fences raw) in
        case JSON_parse cleaned of
          Some v \<Rightarrow> Inr v
        | None \<Rightarrow>
            (case index_of (CHR ''{'') cleaned of
               None \<Rightarrow> Inl (Error ''No JSON object found in AI response'')
             | Some start \<Rightarrow>
                 (case scan_balanced cleaned start start 0 (drop start cleaned) of
                    Some v \<Rightarrow> Inr v
                  | None \<Rightarrow>
                      (case greedy_braces cleaned of
                         None \<Rightarrow> Inl (Error ''Could not extract valid JSON from AI response'')
                       | Some m \<Rightarrow>
                           (case JSON_parse m of
                              Some v \<Rightarrow> Inr v
                            | None \<Rightarrow> Inl (Error ''Could not extract valid JSON from AI response''))))))"




section \<open>Prompt builder\<close>

text \<open>
  A product as the service reads it: every field may be absent. \<open>metafields\<close> is an
  array (of strings, which \<open>join\<close> prints as they are), or an object whose \<open>edges\<close>
  is an array, or anything else. An edge is its node (\<open>e.node ?? e\<close>) with a key and a
  value; an edge that is \<open>null\<close> makes \<open>e.node\<close> throw, which is \<open>None\<close> here.
\<close>

record mf_node =
  mf_key :: string
  mf_val :: json

datatype metafields = MfAbsent | MfArray "string list" | MfEdges "mf_node option list"

record product =
  p_id :: "string option"
  p_title :: "string option"
  p_description :: "string option"
  p_metafields :: metafields

definition edge_line :: "mf_node \<Rightarrow> string" where
  "edge_line n =
     (case mf_val n of
        JStr s \<Rightarrow> mf_key n @ '': '' @ s
      | v \<Rightarrow> mf_key n @ '': '' @ JSON_stringify v)"

text \<open>\<open>edges.map(...)\<close>; \<open>None\<close> when the callback throws.\<close>

fun edge_lines :: "mf_node option list \<Rightarrow> string list option" where
  "edge_lines [] = Some []"
| "edge_lines (None # es) = None"
| "edge_lines (Some n # es) = map_option ((#) (edge_line n)) (edge_lines es)"

definition normalizeMetafields :: "product option \<Rightarrow> string list" where
  "normalizeMetafields p =
     (case p of
        None \<Rightarrow> []
      | Some pr \<Rightarrow>
          (case p_metafields pr of
             MfArray xs \<Rightarrow> xs
           | MfEdges es \<Rightarrow> (case edge_lines es of Some ls \<Rightarrow> ls | None \<Rightarrow> [])
           | MfAbsent \<Rightarrow> []))"

text \<open>
  \<open>vibeMap\<close> and \<open>formatMap\<close> are object literals, and \<open>vibeMap[vibe]\<close> is a property
  read: a key that is not the object's own is looked up in \<open>Object.prototype\<close>. The
  table gives, for each property of \<open>Object.prototype\<close>, the text a template literal
  prints for it in Node.
\<close>

definition native_function :: "string \<Rightarrow> string" where
  "native_function f = ''function '' @ f @ ''() { [native code] }''"

definition object_prototype :: "(string \<times> string) list" where
  "object_prototype =
     [(''constructor'', native_function ''Object''),
      (''__proto__'', ''[object Object]''),
      (''hasOwnProperty'', native_function ''hasOwnProperty''),
      (''isPrototypeOf'', native_function ''isPrototypeOf''),
      (''propertyIsEnumerable'', native_function ''propertyIsEnumerable''),
      (''toLocaleString'', native_function ''toLocaleString''),
      (''toString'', native_function ''toString''),
      (''valueOf'', native_function ''valueOf''),
      (''__defineGetter__'', native_function ''__defineGetter__''),
      (''__defineSetter__'', native_function ''__defineSetter__''),
      (''__lookupGetter__'', native_function ''__lookupGetter__''),
      (''__lookupSetter__'', native_function ''__lookupSetter__'')]"

definition literal_get :: "(string \<times> string) list \<Rightarrow> string \<Rightarrow> string option" where
  "literal_get own k =
     (case map_of own k of Some v \<Rightarrow> Some v | None \<Rightarrow> map_of object_prototype k)"

definition vibeMap :: "(string \<times> string) list" where
  "vibeMap =
     [(''edgy'', ''Bold. Punchy. Minimal fluff.''),
      (''minimalist'', ''Ultra concise. Functional. No adjectives.''),
      (''roast'', ''Real Talk. Brutally honest. Persuasive, not rude.'')]"

definition formatMap :: "(string \<times> string) list" where
  "formatMap =
     [(''paragraph'', ''Return HTML paragraphs using <p> tags (2-3 short paragraphs).''),
      (''bullets'', ''Return an unordered list using <ul><li> ... </li></ul> with 4-6 concise bullets.'')]"

definition tone_of :: "string \<Rightarrow> string" where
  "tone_of vibe =
     (case literal_get vibeMap vibe of Some t \<Rightarrow> t | None \<Rightarrow> ''Bold. Punchy. Minimal fluff.'')"

definition format_of :: "string \<Rightarrow> string" where
  "format_of format =
     (case literal_get formatMap format of
        Some t \<Rightarrow> t
      | None \<Rightarrow> ''Return HTML paragraphs using <p> tags (2-3 short paragraphs).'')"

definition json_template :: string where
  \<open>json_template =
     ''{'' @ [CHR 0x0A]
     @ ''  "description": "<p>HTML product description here...</p>",'' @ [CHR 0x0A]
     @ ''  "socials": { "twitter": "...", "instagram": "..." }  // or null'' @ [CHR 0x0A]
     @ ''}''\<close>

text \<open>The array of \<open>buildPrompt\<close> before \<open>.filter(Boolean).join("\n")\<close>.\<close>

definition instructions :: "product option \<Rightarrow> string \<Rightarrow> string \<Rightarrow> string option \<Rightarrow> bool \<Rightarrow> string list" where
  "instructions p vibe format keywords includeSocials =
     (let title = (case p of None \<Rightarrow> ''Untitled''
                   | Some pr \<Rightarrow> (case p_title pr of None \<Rightarrow> ''Untitled'' | Some t \<Rightarrow> t));
          oldDescription =
            map (\<lambda>c. if c = CHR 0x0A then CHR '' '' else c)
              (case p of None \<Rightarrow> [] | Some pr \<Rightarrow> (case p_description pr of None \<Rightarrow> [] | Some d \<Rightarrow> d));
          metafieldsArray = normalizeMetafields p;
          metafields = (if metafieldsArray = [] then ''None'' else join '', '' metafieldsArray)
      in [''Title: '' @ title,
          ''Meta: '' @ metafields,
          ''Old Description: '' @ (if oldDescription = [] then ''None'' else oldDescription),
          ''Tone: '' @ tone_of vibe,
          ''Format: '' @ format_of format,
          (case keywords of None \<Rightarrow> [] | Some k \<Rightarrow> if k = [] then [] else ''SEO Keywords: '' @ k),
          (if includeSocials
           then ''Also generate a 'socials' object with keys 'twitter' and 'instagram'.''
           else []),
          [],
          ''RETURN: Only valid JSON object with exactly these keys:'',
          json_template,
          ''Do NOT include Markdown fenced code blocks. Do NOT include any explanation text. Just return JSON.''])"

definition buildPrompt :: "product option \<Rightarrow> string \<Rightarrow> string \<Rightarrow> string option \<Rightarrow> bool \<Rightarrow> string" where
  "buildPrompt p vibe format keywords includeSocials =
     join [CHR 0x0A] (filter (\<lambda>l. l \<noteq> []) (instructions p vibe format keywords includeSocials))"

section \<open>The store and the upstream endpoint\<close>

text \<open>
  The service of one process: the module constants read from the process environment
  and the fields the constructor sets. A limit that \<open>parseInt\<close> cannot read (\<open>NaN\<close>)
  is outside the model.
\<close>

record config =
  baseUrl :: string
  apiKey :: "string option"
  model_name :: string
  maxRetries :: nat
  timeout_ms :: nat
  RATE_LIMIT_PER_MIN :: int
  MONTHLY_LIMIT :: int

record options =
  opt_baseUrl :: "string option"
  opt_apiKey :: "string option"
  opt_model :: "string option"
  opt_maxRetries :: "nat option"
  opt_timeout :: "nat option"

text \<open>
  The constructor. Its first four arguments are the module constants
  \<open>DEEPSEEK_BASE\<close>, \<open>DEEPSEEK_API_KEY\<close>, \<open>RATE_LIMIT_PER_MIN\<close> and \<open>MONTHLY_LIMIT\<close>.
\<close>

definition DeepSeekService :: "string \<Rightarrow> string option \<Rightarrow> int \<Rightarrow> int \<Rightarrow> options \<Rightarrow> config" where
  "DeepSeekService base key per_min monthly opts =
     \<lparr> baseUrl = (case opt_baseUrl opts of Some b \<Rightarrow> b | None \<Rightarrow> base),
       apiKey = (case opt_apiKey opts of Some k \<Rightarrow> Some k | None \<Rightarrow> key),
       model_name = (case opt_model opts of Some m \<Rightarrow> m | None \<Rightarrow> ''deepseek-chat''),
       maxRetries = (case opt_maxRetries opts of Some n \<Rightarrow> n | None \<Rightarrow> 3),
       timeout_ms = (case opt_timeout opts of Some t \<Rightarrow> t | None \<Rightarrow> 25000),
       RATE_LIMIT_PER_MIN = per_min,
       MONTHLY_LIMIT = monthly \<rparr>"

text \<open>
  What the upstream endpoint answers to one \<open>fetch\<close>: the promise rejects (an abort by
  the timer rejects with an error named \<open>AbortError\<close>), or a response arrives, with its
  status, what \<open>res.text()\<close> gives and what \<open>res.json()\<close> gives (\<open>None\<close> when it
  rejects).
\<close>

record http_response =
  res_status :: nat
  res_text :: "js_error + string"
  res_json :: "json option"

datatype fetch_outcome = Rejected js_error | Responded http_response

text \<open>
  The surroundings of one call, which the code does not decide: for the \<open>n\<close>-th
  interaction with the store, whether the client is ready, whether \<open>connect\<close> resolves
  and whether a command resolves; the answer to the \<open>n\<close>-th \<open>fetch\<close>; and the clock,
  as the year and month of \<open>usageKey\<close> and the seconds \<open>incrementUsage\<close> computes for
  the expiry of the usage counter.
\<close>

record surroundings =
  status_ready :: "nat \<Rightarrow> bool"
  connect_ok :: "nat \<Rightarrow> bool"
  command_ok :: "nat \<Rightarrow> bool"
  fetch_result :: "nat \<Rightarrow> fetch_outcome"
  year_month :: string
  usage_ttl :: int

text \<open>What a call leaves behind, in order: the trace of the service.\<close>

datatype redis_cmd =
    Incr string
  | Expire string int
  | Get string
  | Incrby string int
  | Setex string int string

datatype event =
    Connect bool
  | Store redis_cmd bool
  | Attempt nat
  | Fetch string nat
  | Sleep nat

text \<open>
  The state: the strings of the store and their expiries in seconds, the number of
  interactions with the store and of \<open>fetch\<close> calls so far, and the trace.
\<close>

record world =
  kv :: "string \<rightharpoonup> string"
  ttl :: "string \<rightharpoonup> int"
  tick :: nat
  fetches :: nat
  trace :: "event list"

text \<open>The integer a stored string denotes for \<open>INCR\<close> and \<open>INCRBY\<close>, if any.\<close>

definition redis_int :: "string \<Rightarrow> int option" where
  "redis_int s =
     (case s of
        [] \<Rightarrow> None
      | c # cs \<Rightarrow>
          if c = CHR ''-'' then
            (if cs \<noteq> [] \<and> list_all is_digit cs then Some (- int (digits_val cs)) else None)
          else if list_all is_digit s then Some (int (digits_val s))
          else None)"

text \<open>
  One command sent to the store. A command that the surroundings let fail, or that
  Redis refuses (\<open>INCR\<close> on a string that is no integer), throws and changes nothing;
  \<open>None\<close> is the throw. The Redis integers are unbounded here.
\<close>

definition issue :: "surroundings \<Rightarrow> redis_cmd \<Rightarrow> world \<Rightarrow> bool \<times> world" where
  "issue sur cmd w =
     (let ok = command_ok sur (tick w)
      in (ok, w\<lparr> tick := tick w + 1, trace := trace w @ [Store cmd ok] \<rparr>))"

definition redis_incrby :: "surroundings \<Rightarrow> redis_cmd \<Rightarrow> string \<Rightarrow> int \<Rightarrow> world \<Rightarrow> int option \<times> world" where
  "redis_incrby sur cmd key n w =
     (case issue sur cmd w of
        (False, w') \<Rightarrow> (None, w')
      | (True, w') \<Rightarrow>
          (case kv w' key of
             None \<Rightarrow> (Some n, w'\<lparr> kv := (kv w')(key \<mapsto> dec_int n) \<rparr>)
           | Some s \<Rightarrow>
               (case redis_int s of
                  None \<Rightarrow> (None, w')
                | Some i \<Rightarrow> (Some (i + n), w'\<lparr> kv := (kv w')(key \<mapsto> dec_int (i + n)) \<rparr>))))"

definition redis_incr :: "surroundings \<Rightarrow> string \<Rightarrow> world \<Rightarrow> int option \<times> world" where
  "redis_incr sur key w = redis_incrby sur (Incr key) key 1 w"

definition redis_expire :: "surroundings \<Rightarrow> string \<Rightarrow> int \<Rightarrow> world \<Rightarrow> unit option \<times> world" where
  "redis_expire sur key secs w =
     (case issue sur (Expire key secs) w of
        (False, w') \<Rightarrow> (None, w')
      | (True, w') \<Rightarrow>
          (Some (), if kv w' key = None then w' else w'\<lparr> ttl := (ttl w')(key \<mapsto> secs) \<rparr>))"

definition redis_get :: "surroundings \<Rightarrow> string \<Rightarrow> world \<Rightarrow> string option option \<times> world" where
  "redis_get sur key w =
     (case issue sur (Get key) w of
        (False, w') \<Rightarrow> (None, w')
      | (True, w') \<Rightarrow> (Some (kv w' key), w'))"

definition redis_setex :: "surroundings \<Rightarrow> string \<Rightarrow> int \<Rightarrow> string \<Rightarrow> world \<Rightarrow> unit option \<times> world" where
  "redis_setex sur key secs v w =
     (case issue sur (Setex key secs v) w of
        (False, w') \<Rightarrow> (None, w')
      | (True, w') \<Rightarrow> (Some (), w'\<lparr> kv := (kv w')(key \<mapsto> v), ttl := (ttl w')(key \<mapsto> secs) \<rparr>))"

section \<open>Quota tracker\<close>

text \<open>\<open>_ensureRedis\<close>: ready, or a \<open>connect\<close> that resolves.\<close>

definition ensureRedis :: "surroundings \<Rightarrow> world \<Rightarrow> bool \<times> world" where
  "ensureRedis sur w =
     (if status_ready sur (tick w) then (True, w\<lparr> tick := tick w + 1 \<rparr>)
      else
        (connect_ok sur (tick w),
         w\<lparr> tick := tick w + 1, trace := trace w @ [Connect (connect_ok sur (tick w))] \<rparr>))"

text \<open>\<open>!shop\<close>: the tenant is absent when it is \<open>null\<close> or the empty string.\<close>

definition absent :: "string option \<Rightarrow> bool" where
  "absent shop = (case shop of None \<Rightarrow> True | Some s \<Rightarrow> s = [])"

definition shop_name :: "string option \<Rightarrow> string" where
  "shop_name shop = (case shop of None \<Rightarrow> [] | Some s \<Rightarrow> s)"

record rate_result =
  allowed :: bool
  remaining :: int

definition checkRateLimit :: "config \<Rightarrow> surroundings \<Rightarrow> string option \<Rightarrow> world \<Rightarrow> rate_result \<times> world" where
  "checkRateLimit cfg sur shop w =
     (let fail_open = \<lparr> allowed = True, remaining = RATE_LIMIT_PER_MIN cfg \<rparr> in
      if absent shop then (fail_open, w)
      else
        case ensureRedis sur w of
          (False, w1) \<Rightarrow> (fail_open, w1)
        | (True, w1) \<Rightarrow>
            (let key = rateLimitKey (shop_name shop) in
             case redis_incr sur key w1 of
               (None, w2) \<Rightarrow> (fail_open, w2)
             | (Some count, w2) \<Rightarrow>
                 (case (if count = 1 then redis_expire sur key 60 w2 else (Some (), w2)) of
                    (None, w3) \<Rightarrow> (fail_open, w3)
                  | (Some u, w3) \<Rightarrow>
                      if count > RATE_LIMIT_PER_MIN cfg
                      then (\<lparr> allowed = False, remaining = 0 \<rparr>, w3)
                      else (\<lparr> allowed = True, remaining = RATE_LIMIT_PER_MIN cfg - count \<rparr>, w3))))"

text \<open>
  \<open>parseInt(s, 10)\<close>: leading white space, a sign, then the longest run of digits;
  \<open>None\<close> is \<open>NaN\<close>.
\<close>

definition js_parseInt :: "string \<Rightarrow> int option" where
  "js_parseInt s =
     (let s1 = dropWhile js_space s;
          neg = (take 1 s1 = ''-'');
          s2 = (if take 1 s1 = ''-'' \<or> take 1 s1 = ''+'' then drop 1 s1 else s1);
          ds = takeWhile is_digit s2
      in if ds = [] then None
         else Some (if neg then - int (digits_val ds) else int (digits_val ds)))"

record month_result =
  m_allowed :: bool
  m_used :: "int option"
  m_limit :: int

definition checkMonthlyLimit :: "config \<Rightarrow> surroundings \<Rightarrow> string option \<Rightarrow> world \<Rightarrow> month_result \<times> world" where
  "checkMonthlyLimit cfg sur shop w =
     (let fail_open = \<lparr> m_allowed = True, m_used = Some 0, m_limit = MONTHLY_LIMIT cfg \<rparr> in
      if absent shop then (fail_open, w)
      else
        case ensureRedis sur w of
          (False, w1) \<Rightarrow> (fail_open, w1)
        | (True, w1) \<Rightarrow>
            (case redis_get sur (usageKey (year_month sur) (shop_name shop)) w1 of
               (None, w2) \<Rightarrow> (fail_open, w2)
             | (Some got, w2) \<Rightarrow>
                 (let used = js_parseInt (case got of None \<Rightarrow> ''0'' | Some s \<Rightarrow> s) in
                  case used of
                    None \<Rightarrow> (\<lparr> m_allowed = True, m_used = None, m_limit = MONTHLY_LIMIT cfg \<rparr>, w2)
                  | Some u \<Rightarrow>
                      if u \<ge> MONTHLY_LIMIT cfg
                      then (\<lparr> m_allowed = False, m_used = Some u, m_limit = MONTHLY_LIMIT cfg \<rparr>, w2)
                      else (\<lparr> m_allowed = True, m_used = Some u, m_limit = MONTHLY_LIMIT cfg \<rparr>, w2))))"

definition incrementUsage :: "surroundings \<Rightarrow> string option \<Rightarrow> int \<Rightarrow> world \<Rightarrow> world" where
  "incrementUsage sur shop increment w =
     (if absent shop then w
      else
        case ensureRedis sur w of
          (False, w1) \<Rightarrow> w1
        | (True, w1) \<Rightarrow>
            (let key = usageKey (year_month sur) (shop_name shop) in
             case redis_incrby sur (Incrby key increment) key increment w1 of
               (None, w2) \<Rightarrow> w2
             | (Some n, w2) \<Rightarrow> snd (redis_expire sur key (usage_ttl sur) w2)))"

section \<open>Generation orchestrator\<close>

text \<open>
  \<open>sanitizeHTML\<close>: the empty string for a falsy argument, else what DOMPurify makes of
  it with the allow-list of the service. DOMPurify is a library; \<open>purify\<close> stands for
  its \<open>sanitize\<close> with that configuration.
\<close>

definition sanitizeHTML :: "(string \<Rightarrow> string) \<Rightarrow> string \<Rightarrow> string" where
  "sanitizeHTML purify html = (if html = [] then [] else purify html)"

text \<open>Optional chaining: \<open>v?.k\<close> and \<open>v?.[0]\<close> on a value that may be \<open>undefined\<close>.\<close>

definition opt_get :: "json option \<Rightarrow> string \<Rightarrow> json option" where
  "opt_get v k = (case v of None \<Rightarrow> None | Some x \<Rightarrow> js_get x k)"

definition opt_get0 :: "json option \<Rightarrow> json option" where
  "opt_get0 v = (case v of None \<Rightarrow> None | Some x \<Rightarrow> js_get0 x)"

definition is_truthy :: "json option \<Rightarrow> bool" where
  "is_truthy v = (case v of None \<Rightarrow> False | Some x \<Rightarrow> truthy x)"

text \<open>The text of the answer, \<open>String(aiText)\<close>, chosen from the payload.\<close>

definition ai_text :: "json \<Rightarrow> string" where
  "ai_text payload =
     (let first_choice = opt_get0 (opt_get (Some payload) ''choices'');
          content = opt_get (opt_get first_choice ''message'') ''content'';
          legacy = opt_get first_choice ''text'';
          rawText = opt_get (Some payload) ''rawText''
      in if is_truthy content then (case content of Some x \<Rightarrow> js_to_string x | None \<Rightarrow> [])
         else if is_truthy legacy then (case legacy of Some x \<Rightarrow> js_to_string x | None \<Rightarrow> [])
         else if is_truthy rawText then (case rawText of Some x \<Rightarrow> js_to_string x | None \<Rightarrow> [])
         else JSON_stringify payload)"

text \<open>The two defaults set on the parsed object.\<close>

definition normalize_keys :: "json \<Rightarrow> json" where
  "normalize_keys parsed =
     (let p1 = (if js_get parsed ''description'' = None then js_set parsed ''description'' (JStr []) else parsed)
      in if js_get p1 ''socials'' = None then js_set p1 ''socials'' JNull else p1)"

text \<open>\<open>res.json().catch(async () => ({ rawText: await res.text() }))\<close>.\<close>

definition payload_of :: "http_response \<Rightarrow> js_error + json" where
  "payload_of res =
     (case res_json res of
        Some j \<Rightarrow> Inr j
      | None \<Rightarrow> (case res_text res of Inl e \<Rightarrow> Inl e | Inr t \<Rightarrow> Inr (JObj [(''rawText'', JStr t)])))"

text \<open>The body of the \<open>try\<close> of \<open>_callDeepSeekHTTP\<close>, once \<open>fetch\<close> has settled.\<close>

definition read_response :: "fetch_outcome \<Rightarrow> js_error + json" where
  "read_response out =
     (case out of
        Rejected e \<Rightarrow> Inl e
      | Responded res \<Rightarrow>
          if \<not> (200 \<le> res_status res \<and> res_status res \<le> 299) then
            Inl (Error (''DeepSeek HTTP '' @ dec_nat (res_status res) @ '': ''
                   @ (case res_text res of Inl e \<Rightarrow> [] | Inr t \<Rightarrow> t)))
          else
            (case payload_of res of
               Inl e \<Rightarrow> Inl e
             | Inr payload \<Rightarrow>
                 (case extractJsonFromText (ai_text payload) of
                    Inl e \<Rightarrow> Inl e
                  | Inr parsed \<Rightarrow>
                      if \<not> is_object parsed then Inl (Error ''AI returned invalid JSON object'')
                      else Inr (normalize_keys parsed))))"

text \<open>
  The \<open>catch\<close> of \<open>_callDeepSeekHTTP\<close>: an error named \<open>AbortError\<close> becomes the
  time-out error, any other error is thrown again.
\<close>

definition settle :: "fetch_outcome \<Rightarrow> js_error + json" where
  "settle out =
     (case read_response out of
        Inl e \<Rightarrow> if err_name e = ''AbortError'' then Inl (Error ''DeepSeek request timed out'') else Inl e
      | Inr parsed \<Rightarrow> Inr parsed)"

text \<open>
  \<open>_callDeepSeekHTTP\<close>. The \<open>Fetch\<close> event records the prompt and the delay of the
  timer that aborts the request.
\<close>

definition callDeepSeekHTTP :: "config \<Rightarrow> surroundings \<Rightarrow> string \<Rightarrow> world \<Rightarrow> (js_error + json) \<times> world" where
  "callDeepSeekHTTP cfg sur prompt w =
     (if (case apiKey cfg of None \<Rightarrow> True | Some k \<Rightarrow> k = [])
      then (Inl (Error ''DeepSeek API key is not configured''), w)
      else
        (settle (fetch_result sur (fetches w)),
         w\<lparr> fetches := fetches w + 1, trace := trace w @ [Fetch prompt (timeout_ms cfg)] \<rparr>))"

text \<open>The request of \<open>generateDescription\<close>, after its parameter defaults.\<close>

record request =
  req_product :: "product option"
  req_vibe :: string
  req_format :: string
  req_keywords :: "string option"
  req_includeSocials :: bool
  req_shop :: "string option"

text \<open>
  \<open>if (result?.description) result.description = sanitizeHTML(String(result.description))\<close>.
\<close>

definition sanitize_description :: "(string \<Rightarrow> string) \<Rightarrow> json \<Rightarrow> json" where
  "sanitize_description purify result =
     (case js_get result ''description'' of
        None \<Rightarrow> result
      | Some d \<Rightarrow>
          if truthy d then js_set result ''description'' (JStr (sanitizeHTML purify (js_to_string d)))
          else result)"

text \<open>
  What follows a successful upstream call inside the \<open>try\<close>: sanitise, write the cache
  when the store was reachable, count the usage when there is a tenant, return.
\<close>

definition accept_result ::
  "(string \<Rightarrow> string) \<Rightarrow> surroundings \<Rightarrow> string option \<Rightarrow> string \<Rightarrow> bool \<Rightarrow> json \<Rightarrow> world \<Rightarrow> json \<times> world" where
  "accept_result purify sur shop cacheKey haveRedis parsed w =
     (let result = sanitize_description purify parsed;
          w1 = (if haveRedis then snd (redis_setex sur cacheKey (60 * 60 * 24) (JSON_stringify result) w) else w);
          w2 = (if absent shop then w1 else incrementUsage sur shop 1 w1)
      in (result, w2))"

text \<open>
  The retry loop, from \<open>attempt\<close> on; \<open>lastErr\<close> is the error of the attempt before.
\<close>

function attempts ::
  "config \<Rightarrow> (string \<Rightarrow> string) \<Rightarrow> surroundings \<Rightarrow> string option \<Rightarrow> string \<Rightarrow> bool \<Rightarrow> string
     \<Rightarrow> nat \<Rightarrow> js_error option \<Rightarrow> world \<Rightarrow> (js_error + json) \<times> world" where
  "attempts cfg purify sur shop cacheKey haveRedis prompt attempt lastErr w =
     (if attempt \<le> maxRetries cfg then
        (case callDeepSeekHTTP cfg sur prompt (w\<lparr> trace := trace w @ [Attempt attempt] \<rparr>) of
           (Inr parsed, w1) \<Rightarrow>
             (case accept_result purify sur shop cacheKey haveRedis parsed w1 of
                (result, w2) \<Rightarrow> (Inr result, w2))
         | (Inl err, w1) \<Rightarrow>
             attempts cfg purify sur shop cacheKey haveRedis prompt (attempt + 1) (Some err)
               (if attempt < maxRetries cfg then w1\<lparr> trace := trace w1 @ [Sleep (500 * attempt)] \<rparr> else w1))
      else
        (Inl (Error (''Generation failed: ''
           @ (case lastErr of None \<Rightarrow> ''unknown error'' | Some e \<Rightarrow> message e))), w))"
  by pat_completeness auto
termination
  by (relation "measure (\<lambda>(cfg, purify, sur, shop, cacheKey, haveRedis, prompt, attempt, lastErr, w).
        Suc (maxRetries cfg) - attempt)") auto

declare attempts.simps [simp del]

text \<open>The cache lookup: a hit is a non-empty string that \<open>JSON.parse\<close> reads.\<close>

definition cache_lookup :: "surroundings \<Rightarrow> string \<Rightarrow> bool \<Rightarrow> world \<Rightarrow> json option \<times> world" where
  "cache_lookup sur cacheKey haveRedis w =
     (if haveRedis then
        (case redis_get sur cacheKey w of
           (Some (Some cached), w1) \<Rightarrow> (if cached = [] then None else JSON_parse cached, w1)
         | (got, w1) \<Rightarrow> (None, w1))
      else (None, w))"

definition generateDescription ::
  "config \<Rightarrow> (string \<Rightarrow> string) \<Rightarrow> surroundings \<Rightarrow> request \<Rightarrow> world \<Rightarrow> (js_error + json) \<times> world" where
  "generateDescription cfg purify sur req w =
     (case checkRateLimit cfg sur (req_shop req) w of
        (rl, w1) \<Rightarrow>
          if \<not> allowed rl then (Inl (Error ''Rate limit exceeded. Try again shortly.''), w1)
          else
            (case checkMonthlyLimit cfg sur (req_shop req) w1 of
               (ml, w2) \<Rightarrow>
                 if \<not> m_allowed ml then
                   (Inl (Error (''Monthly limit reached: ''
                      @ (case m_used ml of None \<Rightarrow> ''NaN'' | Some u \<Rightarrow> dec_int u)
                      @ ''/'' @ dec_int (m_limit ml))), w2)
                 else
                   (let cacheKey =
                          buildCacheKey
                            (case req_product req of None \<Rightarrow> ''unknown''
                             | Some pr \<Rightarrow> (case p_id pr of None \<Rightarrow> ''unknown'' | Some i \<Rightarrow> i))
                            (req_vibe req) (req_format req) (req_keywords req) (req_includeSocials req)
                    in case ensureRedis sur w2 of
                         (haveRedis, w3) \<Rightarrow>
                           (case cache_lookup sur cacheKey haveRedis w3 of
                              (Some cached, w4) \<Rightarrow> (Inr cached, w4)
                            | (None, w4) \<Rightarrow>
                                attempts cfg purify sur (req_shop req) cacheKey haveRedis
                                  (buildPrompt (req_product req) (req_vibe req) (req_format req)
                                     (req_keywords req) (req_includeSocials req))
                                  1 None w4))))"

section \<open>Runs and traces\<close>

text \<open>The events a call adds to the trace.\<close>

definition new_events :: "world \<Rightarrow> world \<Rightarrow> event list" where
  "new_events w w' = drop (length (trace w)) (trace w')"



fun is_store :: "event \<Rightarrow> bool" where
  "is_store (Store cmd ok) = True"
| "is_store (Connect ok) = True"
| "is_store ev = False"

fun is_write :: "event \<Rightarrow> bool" where
  "is_write (Store (Setex k t v) ok) = True"
| "is_write ev = False"



text \<open>The store answers every interaction: the client is ready or connects, and no command fails.\<close>

definition store_up :: "surroundings \<Rightarrow> bool" where
  "store_up sur \<longleftrightarrow> (\<forall>t. (status_ready sur t \<or> connect_ok sur t) \<and> command_ok sur t)"


text \<open>The state after \<open>n\<close> consecutive calls of \<open>checkRateLimit\<close> for one tenant.\<close>

primrec after_calls :: "config \<Rightarrow> surroundings \<Rightarrow> string option \<Rightarrow> nat \<Rightarrow> world \<Rightarrow> world" where
  "after_calls cfg sur shop 0 w = w"
| "after_calls cfg sur shop (Suc n) w = snd (checkRateLimit cfg sur shop (after_calls cfg sur shop n w))"

text \<open>\<open>!this.apiKey\<close>: the key is missing or empty.\<close>

definition no_key :: "config \<Rightarrow> bool" where
  "no_key cfg = (case apiKey cfg of None \<Rightarrow> True | Some k \<Rightarrow> k = [])"


text \<open>\<open>w'\<close> comes from \<open>w\<close> by store events of one kind only, with no upstream call.\<close>

definition grows :: "(event \<Rightarrow> bool) \<Rightarrow> world \<Rightarrow> world \<Rightarrow> bool" where
  "grows P w w' \<longleftrightarrow> fetches w' = fetches w \<and> (\<exists>evs. trace w' = trace w @ evs \<and> list_all P evs)"



text \<open>The cache key and the prompt of a request, as \<open>generateDescription\<close> builds them.\<close>

definition request_key :: "request \<Rightarrow> string" where
  "request_key req =
     buildCacheKey
       (case req_product req of None \<Rightarrow> ''unknown''
        | Some pr \<Rightarrow> (case p_id pr of None \<Rightarrow> ''unknown'' | Some i \<Rightarrow> i))
       (req_vibe req) (req_format req) (req_keywords req) (req_includeSocials req)"

definition request_prompt :: "request \<Rightarrow> string" where
  "request_prompt req =
     buildPrompt (req_product req) (req_vibe req) (req_format req) (req_keywords req) (req_includeSocials req)"

section \<open>Example configuration and surroundings\<close>

text \<open>
  The service as the module constructs it when no option and no limit is set in the
  environment, with an API key; a store that always or never answers; the state before
  the first call.
\<close>

definition default_service :: config where
  "default_service =
     DeepSeekService ''https://api.deepseek.com'' (Some ''sk-test'') 30 150
       \<lparr> opt_baseUrl = None, opt_apiKey = None, opt_model = None, opt_maxRetries = None, opt_timeout = None \<rparr>"

definition surroundings_of :: "bool \<Rightarrow> (nat \<Rightarrow> fetch_outcome) \<Rightarrow> surroundings" where
  "surroundings_of up answers =
     \<lparr> status_ready = (\<lambda>t. False), connect_ok = (\<lambda>t. up), command_ok = (\<lambda>t. up),
       fetch_result = answers, year_month = ''2025-06'', usage_ttl = 3000000 \<rparr>"

definition fresh_world :: world where
  "fresh_world = \<lparr> kv = Map.empty, ttl = Map.empty, tick = 0, fetches = 0, trace = [] \<rparr>"

text \<open>The same answer to every call.\<close>

fun always :: "'a \<Rightarrow> 'b \<Rightarrow> 'a" where
  "always x y = x"

text \<open>An upstream answer with status 200 whose first choice has the given content.\<close>

definition chat_response :: "string \<Rightarrow> fetch_outcome" where
  "chat_response content =
     Responded \<lparr> res_status = 200, res_text = Inl (JsError ''TypeError'' ''Body is unusable''),
       res_json = Some (JObj [(''choices'',
         JArr [JObj [(''message'', JObj [(''role'', JStr ''assistant''), (''content'', JStr content)])]] [])]) \<rparr>"

definition plain_request :: request where
  "plain_request =
     \<lparr> req_product = None, req_vibe = ''edgy'', req_format = ''paragraph'', req_keywords = Some [],
       req_includeSocials = False, req_shop = None \<rparr>"





definition array_answer :: string where
  \<open>array_answer = ''[{"description":"<p>Soft wool</p><script>x()</script>","socials":null}]''\<close>



section \<open>Properties of the fingerprint\<close>









section \<open>Properties of the extractor\<close>





















section \<open>Properties of the prompt builder\<close>

lemma json_template_nonempty: "json_template \<noteq> []"
  by (simp add: json_template_def)

lemma buildPrompt_lines:
  "buildPrompt p vibe format keywords includeSocials =
     join [CHR 0x0A]
       (take 5 (instructions p vibe format keywords includeSocials)
        @ (case keywords of None \<Rightarrow> [] | Some k \<Rightarrow> if k = [] then [] else [''SEO Keywords: '' @ k])
        @ (if includeSocials then [''Also generate a 'socials' object with keys 'twitter' and 'instagram'.''] else [])
        @ [''RETURN: Only valid JSON object with exactly these keys:'',
           json_template,
           ''Do NOT include Markdown fenced code blocks. Do NOT include any explanation text. Just return JSON.''])"
  by (simp add: buildPrompt_def instructions_def Let_def json_template_nonempty split: option.splits)

lemma tone_fallback:
  "map_of vibeMap vibe = None \<Longrightarrow> map_of object_prototype vibe = None \<Longrightarrow> tone_of vibe = tone_of ''edgy''"
  by (simp add: tone_of_def literal_get_def vibeMap_def)

lemma format_fallback:
  "map_of formatMap format = None \<Longrightarrow> map_of object_prototype format = None
     \<Longrightarrow> format_of format = format_of ''paragraph''"
  by (simp add: format_of_def literal_get_def formatMap_def)

text \<open>
  C9: a vibe or a format that is not a key of its mapping but names a property of
  \<open>Object.prototype\<close> does not fall back: the property read finds the inherited
  member, which is not nullish, and the line prints that member.
\<close>

theorem buildPrompt_inherited_key:
  "map_of vibeMap ''constructor'' = None
   \<and> tone_of ''constructor'' = ''function Object() { [native code] }''
   \<and> tone_of ''constructor'' \<noteq> tone_of ''edgy''
   \<and> instructions None ''constructor'' ''paragraph'' None False ! 3
       = ''Tone: function Object() { [native code] }''
   \<and> map_of formatMap ''toString'' = None
   \<and> format_of ''toString'' = ''function toString() { [native code] }''
   \<and> format_of ''toString'' \<noteq> format_of ''paragraph''"
  by (simp add: tone_of_def format_of_def literal_get_def vibeMap_def formatMap_def
        object_prototype_def native_function_def instructions_def Let_def)

section \<open>Properties of the rate limit\<close>

lemma digit_char_table:
  "digit_char 0 = CHR ''0'' \<and> digit_char 1 = CHR ''1'' \<and> digit_char 2 = CHR ''2''
   \<and> digit_char 3 = CHR ''3'' \<and> digit_char 4 = CHR ''4'' \<and> digit_char 5 = CHR ''5''
   \<and> digit_char 6 = CHR ''6'' \<and> digit_char 7 = CHR ''7'' \<and> digit_char 8 = CHR ''8''
   \<and> digit_char 9 = CHR ''9''"
  by code_simp

lemma digit_char_cases:
  assumes "d < 10"
  shows "is_digit (digit_char d) \<and> digit_val (digit_char d) = d \<and> digit_char d \<noteq> CHR ''-''"
proof -
  from assms have "d \<in> {0, 1, 2, 3, 4, 5, 6, 7, 8, 9}" by auto
  with digit_char_table show ?thesis
    by (auto simp: is_digit_def digit_val_def)
qed

lemma digits_val_snoc: "digits_val (ds @ [c]) = 10 * digits_val ds + digit_val c"
  by (simp add: digits_val_def)

lemma dec_nat_digits:
  "list_all is_digit (dec_nat n) \<and> dec_nat n \<noteq> [] \<and> digits_val (dec_nat n) = n"
proof (induction n rule: dec_nat.induct)
  case (1 n)
  show ?case
  proof (cases "n < 10")
    case True
    then have "dec_nat n = [digit_char n]" by (subst dec_nat.simps) simp
    with digit_char_cases[OF True] show ?thesis by (simp add: digits_val_def)
  next
    case False
    then have e: "dec_nat n = dec_nat (n div 10) @ [digit_char (n mod 10)]"
      by (subst dec_nat.simps) simp
    have m: "n mod 10 < 10" by simp
    from 1[OF False] digit_char_cases[OF m] show ?thesis
      unfolding e by (simp add: digits_val_snoc)
  qed
qed

lemma redis_int_dec_nat: "redis_int (dec_nat n) = Some (int n)"
proof -
  from dec_nat_digits[of n] obtain c cs where e: "dec_nat n = c # cs"
    by (cases "dec_nat n") auto
  from dec_nat_digits[of n] e have "is_digit c" by simp
  then have "c \<noteq> CHR ''-''" by (auto simp: is_digit_def)
  with dec_nat_digits[of n] e show ?thesis
    by (simp add: redis_int_def)
qed

lemma redis_int_dec_int: "redis_int (dec_int i) = Some i"
proof (cases "i < 0")
  case True
  with dec_nat_digits[of "nat (- i)"] show ?thesis
    by (simp add: redis_int_def dec_int_def)
next
  case False
  with redis_int_dec_nat[of "nat i"] show ?thesis
    by (simp add: dec_int_def)
qed

lemma ensureRedis_up:
  assumes "store_up sur"
  shows "ensureRedis sur w =
     (True, w\<lparr> tick := tick w + 1,
               trace := trace w @ (if status_ready sur (tick w) then [] else [Connect True]) \<rparr>)"
  using assms by (auto simp: ensureRedis_def store_up_def)

lemma checkRateLimit_first:
  assumes "\<not> absent shop" "store_up sur" "kv w (rateLimitKey (shop_name shop)) = None"
  shows "checkRateLimit cfg sur shop w =
     (\<lparr> allowed = (1 \<le> RATE_LIMIT_PER_MIN cfg),
        remaining = (if 1 \<le> RATE_LIMIT_PER_MIN cfg then RATE_LIMIT_PER_MIN cfg - 1 else 0) \<rparr>,
      w\<lparr> kv := (kv w)(rateLimitKey (shop_name shop) \<mapsto> dec_int 1),
         ttl := (ttl w)(rateLimitKey (shop_name shop) \<mapsto> 60),
         tick := tick w + 3,
         trace := trace w @ (if status_ready sur (tick w) then [] else [Connect True])
            @ [Store (Incr (rateLimitKey (shop_name shop))) True,
               Store (Expire (rateLimitKey (shop_name shop)) 60) True] \<rparr>)"
  using assms(1,3) assms(2)[unfolded store_up_def]
  by (simp add: checkRateLimit_def ensureRedis_up[OF assms(2)] redis_incr_def redis_incrby_def
        issue_def redis_expire_def Let_def)

lemma checkRateLimit_next:
  assumes "\<not> absent shop" "store_up sur" "kv w (rateLimitKey (shop_name shop)) = Some (dec_int (int n))" "0 < n"
  shows "checkRateLimit cfg sur shop w =
     (\<lparr> allowed = (int n + 1 \<le> RATE_LIMIT_PER_MIN cfg),
        remaining = (if int n + 1 \<le> RATE_LIMIT_PER_MIN cfg then RATE_LIMIT_PER_MIN cfg - (int n + 1) else 0) \<rparr>,
      w\<lparr> kv := (kv w)(rateLimitKey (shop_name shop) \<mapsto> dec_int (int n + 1)),
         tick := tick w + 2,
         trace := trace w @ (if status_ready sur (tick w) then [] else [Connect True])
            @ [Store (Incr (rateLimitKey (shop_name shop))) True] \<rparr>)"
  using assms(1,3,4) assms(2)[unfolded store_up_def]
  by (simp add: checkRateLimit_def ensureRedis_up[OF assms(2)] redis_incr_def redis_incrby_def
        issue_def redis_int_dec_int Let_def)

lemma after_calls_state:
  assumes "\<not> absent shop" "store_up sur" "kv w (rateLimitKey (shop_name shop)) = None"
  shows "kv (after_calls cfg sur shop n w) (rateLimitKey (shop_name shop))
           = (if n = 0 then None else Some (dec_int (int n)))
         \<and> (0 < n \<longrightarrow> ttl (after_calls cfg sur shop n w) (rateLimitKey (shop_name shop)) = Some 60)"
proof (induction n)
  case 0
  then show ?case using assms(3) by simp
next
  case (Suc n)
  show ?case
  proof (cases "n = 0")
    case True
    then show ?thesis
      using checkRateLimit_first[OF assms, of cfg] by simp
  next
    case False
    with Suc have k: "kv (after_calls cfg sur shop n w) (rateLimitKey (shop_name shop)) = Some (dec_int (int n))"
      and t: "ttl (after_calls cfg sur shop n w) (rateLimitKey (shop_name shop)) = Some 60"
      by simp_all
    from False have p: "0 < n" by simp
    show ?thesis
      using checkRateLimit_next[OF assms(1,2) k p, of cfg] t by (simp add: add.commute)
  qed
qed

text \<open>
  C2. For a present tenant, a store that answers and a window that starts with no
  counter, the \<open>(n+1)\<close>-th consecutive call of \<open>checkRateLimit\<close> leaves the counter at
  \<open>n + 1\<close> and returns \<open>allowed\<close> with \<open>remaining = L - (n + 1)\<close> when \<open>n + 1 \<le> L\<close>,
  and \<open>allowed = false\<close> with \<open>remaining = 0\<close> otherwise; the expiry of 60 seconds is
  sent by the first call only and stays; an absent tenant is allowed without touching
  the store.
\<close>

theorem checkRateLimit_window:
  assumes "\<not> absent shop" and "store_up sur" and "kv w (rateLimitKey (shop_name shop)) = None"
  shows "fst (checkRateLimit cfg sur shop (after_calls cfg sur shop n w))
           = \<lparr> allowed = (int n + 1 \<le> RATE_LIMIT_PER_MIN cfg),
               remaining = (if int n + 1 \<le> RATE_LIMIT_PER_MIN cfg
                            then RATE_LIMIT_PER_MIN cfg - (int n + 1) else 0) \<rparr>
       \<and> kv (after_calls cfg sur shop (Suc n) w) (rateLimitKey (shop_name shop)) = Some (dec_int (int n + 1))
       \<and> ttl (after_calls cfg sur shop (Suc n) w) (rateLimitKey (shop_name shop)) = Some 60
       \<and> (Store (Expire (rateLimitKey (shop_name shop)) 60) True
            \<in> set (new_events (after_calls cfg sur shop n w) (after_calls cfg sur shop (Suc n) w)))
          = (n = 0)
       \<and> checkRateLimit cfg sur None w = (\<lparr> allowed = True, remaining = RATE_LIMIT_PER_MIN cfg \<rparr>, w)
       \<and> checkRateLimit cfg sur (Some []) w = (\<lparr> allowed = True, remaining = RATE_LIMIT_PER_MIN cfg \<rparr>, w)"
proof -
  let ?w = "after_calls cfg sur shop n w"
  note st = after_calls_state[OF assms, of cfg]
  have a: "checkRateLimit cfg sur None w = (\<lparr> allowed = True, remaining = RATE_LIMIT_PER_MIN cfg \<rparr>, w)"
    "checkRateLimit cfg sur (Some []) w = (\<lparr> allowed = True, remaining = RATE_LIMIT_PER_MIN cfg \<rparr>, w)"
    by (simp_all add: checkRateLimit_def absent_def)
  show ?thesis
  proof (cases "n = 0")
    case True
    with checkRateLimit_first[OF assms, of cfg] a show ?thesis
      by (simp add: new_events_def)
  next
    case False
    then have p: "0 < n" by simp
    from st[of n] False have k: "kv ?w (rateLimitKey (shop_name shop)) = Some (dec_int (int n))"
      and t: "ttl ?w (rateLimitKey (shop_name shop)) = Some 60" by simp_all
    from checkRateLimit_next[OF assms(1,2) k p, of cfg] t a False show ?thesis
      by (simp add: new_events_def)
  qed
qed

theorem checkRateLimit_window_witness:
  "\<not> absent (Some ''shop.example'')
   \<and> store_up (surroundings_of True (always (Rejected (Error ''offline''))))
   \<and> kv fresh_world (rateLimitKey (shop_name (Some ''shop.example''))) = None
   \<and> RATE_LIMIT_PER_MIN default_service = 30
   \<and> fst (checkRateLimit default_service (surroundings_of True (always (Rejected (Error ''offline''))))
         (Some ''shop.example'')
         (after_calls default_service (surroundings_of True (always (Rejected (Error ''offline''))))
            (Some ''shop.example'') 29 fresh_world))
       = \<lparr> allowed = True, remaining = 0 \<rparr>
   \<and> fst (checkRateLimit default_service (surroundings_of True (always (Rejected (Error ''offline''))))
         (Some ''shop.example'')
         (after_calls default_service (surroundings_of True (always (Rejected (Error ''offline''))))
            (Some ''shop.example'') 30 fresh_world))
       = \<lparr> allowed = False, remaining = 0 \<rparr>"
proof -
  let ?sur = "surroundings_of True (always (Rejected (Error ''offline'')))"
  have h1: "\<not> absent (Some ''shop.example'')" by (simp add: absent_def)
  have h2: "store_up ?sur" by (simp add: store_up_def surroundings_of_def)
  have h3: "kv fresh_world (rateLimitKey (shop_name (Some ''shop.example''))) = None"
    by (simp add: fresh_world_def)
  have l: "RATE_LIMIT_PER_MIN default_service = 30"
    by (simp add: default_service_def DeepSeekService_def)
  from checkRateLimit_window[OF h1 h2 h3, of default_service 29]
       checkRateLimit_window[OF h1 h2 h3, of default_service 30] h1 h2 h3 l
  show ?thesis by simp
qed

section \<open>The store commands and the retry loop\<close>

lemma grows_refl: "grows P w w"
  by (simp add: grows_def)


lemma grows_mono: "grows P w w' \<Longrightarrow> (\<And>e. P e \<Longrightarrow> Q e) \<Longrightarrow> grows Q w w'"
  by (auto simp: grows_def list_all_iff)


lemma issue_eq:
  "issue sur cmd w =
     (command_ok sur (tick w),
      w\<lparr> tick := tick w + 1, trace := trace w @ [Store cmd (command_ok sur (tick w))] \<rparr>)"
  by (simp add: issue_def Let_def)

lemma ensureRedis_eq:
  "ensureRedis sur w =
     (if status_ready sur (tick w) then (True, w\<lparr> tick := tick w + 1 \<rparr>)
      else if connect_ok sur (tick w)
        then (True, w\<lparr> tick := tick w + 1, trace := trace w @ [Connect True] \<rparr>)
        else (False, w\<lparr> tick := tick w + 1, trace := trace w @ [Connect False] \<rparr>))"
  by (simp add: ensureRedis_def)

lemma redis_get_eq:
  "redis_get sur key w =
     (if command_ok sur (tick w)
      then (Some (kv w key), w\<lparr> tick := tick w + 1, trace := trace w @ [Store (Get key) True] \<rparr>)
      else (None, w\<lparr> tick := tick w + 1, trace := trace w @ [Store (Get key) False] \<rparr>))"
  by (simp add: redis_get_def issue_eq)

lemma redis_setex_eq:
  "redis_setex sur key secs v w =
     (if command_ok sur (tick w)
      then (Some (), w\<lparr> kv := (kv w)(key \<mapsto> v), ttl := (ttl w)(key \<mapsto> secs), tick := tick w + 1,
                        trace := trace w @ [Store (Setex key secs v) True] \<rparr>)
      else (None, w\<lparr> tick := tick w + 1, trace := trace w @ [Store (Setex key secs v) False] \<rparr>))"
  by (simp add: redis_setex_def issue_eq)

lemma redis_expire_eq:
  "redis_expire sur key secs w =
     (if command_ok sur (tick w)
      then (Some (), w\<lparr> ttl := (if kv w key = None then ttl w else (ttl w)(key \<mapsto> secs)), tick := tick w + 1,
                        trace := trace w @ [Store (Expire key secs) True] \<rparr>)
      else (None, w\<lparr> tick := tick w + 1, trace := trace w @ [Store (Expire key secs) False] \<rparr>))"
  by (simp add: redis_expire_def issue_eq)

lemma redis_incrby_eq:
  "redis_incrby sur cmd key n w =
     (if command_ok sur (tick w) then
        (case kv w key of
           None \<Rightarrow> (Some n, w\<lparr> kv := (kv w)(key \<mapsto> dec_int n), tick := tick w + 1,
                               trace := trace w @ [Store cmd True] \<rparr>)
         | Some s \<Rightarrow>
             (case redis_int s of
                None \<Rightarrow> (None, w\<lparr> tick := tick w + 1, trace := trace w @ [Store cmd True] \<rparr>)
              | Some i \<Rightarrow> (Some (i + n), w\<lparr> kv := (kv w)(key \<mapsto> dec_int (i + n)), tick := tick w + 1,
                                        trace := trace w @ [Store cmd True] \<rparr>)))
      else (None, w\<lparr> tick := tick w + 1, trace := trace w @ [Store cmd False] \<rparr>))"
  by (simp add: redis_incrby_def issue_eq split: option.splits)

lemmas store_eqs = ensureRedis_eq redis_get_eq redis_setex_eq redis_expire_eq redis_incrby_eq redis_incr_def








lemma grows_incrementUsage: "grows is_store w (incrementUsage sur shop n w)"
  by (simp add: grows_def incrementUsage_def store_eqs Let_def split: option.splits)

lemma grows_incrementUsage_nowrite:
  "grows (\<lambda>e. is_store e \<and> \<not> is_write e) w (incrementUsage sur shop n w)"
  by (simp add: grows_def incrementUsage_def store_eqs Let_def split: option.splits)

lemma accept_result_fst:
  "fst (accept_result purify sur shop ck hr parsed w) = sanitize_description purify parsed"
  by (simp add: accept_result_def Let_def)

lemma accept_result_trace:
  "fetches (snd (accept_result purify sur shop ck hr parsed w)) = fetches w
   \<and> (\<exists>evs. trace (snd (accept_result purify sur shop ck hr parsed w))
          = trace w
            @ (if hr then [Store (Setex ck 86400 (JSON_stringify (sanitize_description purify parsed)))
                             (command_ok sur (tick w))] else [])
            @ evs
        \<and> list_all (\<lambda>e. is_store e \<and> \<not> is_write e) evs)"
proof -
  let ?r = "sanitize_description purify parsed"
  let ?w1 = "if hr then snd (redis_setex sur ck (60 * 60 * 24) (JSON_stringify ?r) w) else w"
  let ?w2 = "if absent shop then ?w1 else incrementUsage sur shop 1 ?w1"
  have e: "snd (accept_result purify sur shop ck hr parsed w) = ?w2"
    by (simp add: accept_result_def Let_def)
  have a: "fetches ?w1 = fetches w
     \<and> trace ?w1 = trace w @ (if hr then [Store (Setex ck 86400 (JSON_stringify ?r)) (command_ok sur (tick w))] else [])"
    by (simp add: redis_setex_eq)
  have "grows (\<lambda>e. is_store e \<and> \<not> is_write e) ?w1 ?w2"
    using grows_incrementUsage_nowrite[of ?w1 sur shop 1] by (simp add: grows_refl)
  then obtain evs where b: "fetches ?w2 = fetches ?w1" "trace ?w2 = trace ?w1 @ evs"
      "list_all (\<lambda>e. is_store e \<and> \<not> is_write e) evs"
    by (auto simp: grows_def)
  from a b show ?thesis unfolding e by auto
qed

lemma attempts_unfold:
  "attempts cfg purify sur shop ck hr prompt a lastErr w =
     (if a \<le> maxRetries cfg then
        (if no_key cfg then
           attempts cfg purify sur shop ck hr prompt (a + 1)
             (Some (Error ''DeepSeek API key is not configured''))
             (w\<lparr> trace := trace w @ [Attempt a] @ (if a < maxRetries cfg then [Sleep (500 * a)] else []) \<rparr>)
         else
           (case settle (fetch_result sur (fetches w)) of
              Inr parsed \<Rightarrow>
                (Inr (sanitize_description purify parsed),
                 snd (accept_result purify sur shop ck hr parsed
                        (w\<lparr> fetches := fetches w + 1,
                            trace := trace w @ [Attempt a, Fetch prompt (timeout_ms cfg)] \<rparr>)))
            | Inl err \<Rightarrow>
                attempts cfg purify sur shop ck hr prompt (a + 1) (Some err)
                  (w\<lparr> fetches := fetches w + 1,
                      trace := trace w @ [Attempt a, Fetch prompt (timeout_ms cfg)]
                        @ (if a < maxRetries cfg then [Sleep (500 * a)] else []) \<rparr>)))
      else
        (Inl (Error (''Generation failed: ''
           @ (case lastErr of None \<Rightarrow> ''unknown error'' | Some e \<Rightarrow> message e))), w))"
  apply (subst attempts.simps)
  apply (simp add: callDeepSeekHTTP_def no_key_def case_prod_beta accept_result_fst
      split: sum.splits)
  done

lemma new_events_append: "trace w' = trace w @ evs \<Longrightarrow> new_events w w' = evs"
  by (simp add: new_events_def)

lemma attempts_extends:
  "\<exists>evs. trace (snd (attempts cfg purify sur shop ck hr prompt a lastErr w)) = trace w @ evs"
proof (induction "Suc (maxRetries cfg) - a" arbitrary: a lastErr w)
  case 0
  then have "\<not> a \<le> maxRetries cfg" by simp
  then show ?case by (subst attempts_unfold) simp
next
  case (Suc n)
  then have le: "a \<le> maxRetries cfg" and n: "n = Suc (maxRetries cfg) - (a + 1)" by simp_all
  note IH = Suc.hyps(1)[OF n]
  show ?case
  proof (cases "no_key cfg")
    case True
    from IH[of "Some (Error ''DeepSeek API key is not configured'')"
        "w\<lparr> trace := trace w @ [Attempt a] @ (if a < maxRetries cfg then [Sleep (500 * a)] else []) \<rparr>"]
    show ?thesis using le True by (subst attempts_unfold) auto
  next
    case False
    show ?thesis
    proof (cases "settle (fetch_result sur (fetches w))")
      case (Inl err)
      from IH[of "Some err" "w\<lparr> fetches := fetches w + 1,
                      trace := trace w @ [Attempt a, Fetch prompt (timeout_ms cfg)]
                        @ (if a < maxRetries cfg then [Sleep (500 * a)] else []) \<rparr>"]
      show ?thesis using le False Inl by (subst attempts_unfold) auto
    next
      case (Inr parsed)
      from accept_result_trace[of purify sur shop ck hr parsed
          "w\<lparr> fetches := fetches w + 1, trace := trace w @ [Attempt a, Fetch prompt (timeout_ms cfg)] \<rparr>"]
      show ?thesis using le False Inr by (subst attempts_unfold) auto
    qed
  qed
qed











section \<open>Properties of the retry loop\<close>







lemma fresh_world_fields: "trace fresh_world = [] \<and> fetches fresh_world = 0"
  by (simp add: fresh_world_def)











section \<open>Properties of the cache lookup\<close>











lemma sur_fields:
  "status_ready (surroundings_of up answers) t = False"
  "connect_ok (surroundings_of up answers) t = up"
  "command_ok (surroundings_of up answers) t = up"
  "fetch_result (surroundings_of up answers) = answers"
  "year_month (surroundings_of up answers) = ''2025-06''"
  "usage_ttl (surroundings_of up answers) = 3000000"
  by (simp_all add: surroundings_of_def)


lemma service_limits:
  "RATE_LIMIT_PER_MIN default_service = 30 \<and> MONTHLY_LIMIT default_service = 150
   \<and> maxRetries default_service = 3 \<and> timeout_ms default_service = 25000 \<and> \<not> no_key default_service"
  by (simp add: default_service_def DeepSeekService_def no_key_def)








section \<open>Properties of the sanitising step\<close>










lemma fresh_world_store: "kv fresh_world = Map.empty \<and> ttl fresh_world = Map.empty \<and> tick fresh_world = 0"
  by (simp add: fresh_world_def)

lemma plain_request_shop: "req_shop plain_request = None"
  by (simp add: plain_request_def)




section \<open>Properties of the cache write\<close>

lemma settle_array:
  "settle (chat_response array_answer)
   = Inr (JArr [JObj [(''description'', JStr ''<p>Soft wool</p><script>x()</script>''), (''socials'', JNull)]]
            [(''description'', JStr []), (''socials'', JNull)])"
  by code_simp

lemma stringify_array:
  "JSON_stringify (JArr [JObj [(''description'', JStr ''<p>Soft wool</p><script>x()</script>''), (''socials'', JNull)]]
            [(''description'', JStr []), (''socials'', JNull)]) = array_answer"
  by code_simp

lemma parse_array_answer:
  "JSON_parse array_answer
   = Some (JArr [JObj [(''description'', JStr ''<p>Soft wool</p><script>x()</script>''), (''socials'', JNull)]] [])"
  by code_simp

lemma array_answer_text: "array_answer \<noteq> []"
  by (simp add: array_answer_def)

lemma array_description:
  "js_get (JArr [JObj [(''description'', JStr ''<p>Soft wool</p><script>x()</script>''), (''socials'', JNull)]]
            [(''description'', JStr []), (''socials'', JNull)]) ''description'' = Some (JStr [])
   \<and> js_get (JArr [JObj [(''description'', JStr ''<p>Soft wool</p><script>x()</script>''), (''socials'', JNull)]] [])
        ''description'' = None
   \<and> js_get (JArr [JObj [(''description'', JStr ''<p>Soft wool</p><script>x()</script>''), (''socials'', JNull)]] [])
        ''socials'' = None"
  by code_simp

lemma run_array:
  "generateDescription default_service id (surroundings_of True (always (chat_response array_answer)))
     plain_request fresh_world
   = (Inr (JArr [JObj [(''description'', JStr ''<p>Soft wool</p><script>x()</script>''), (''socials'', JNull)]]
            [(''description'', JStr []), (''socials'', JNull)]),
      fresh_world\<lparr>
        kv := [request_key plain_request \<mapsto> array_answer],
        ttl := [request_key plain_request \<mapsto> 86400],
        tick := 3, fetches := 1,
        trace := [Connect True, Store (Get (request_key plain_request)) True,
                  Attempt 1, Fetch (request_prompt plain_request) 25000,
                  Store (Setex (request_key plain_request) 86400 array_answer) True] \<rparr>)"
  by (simp add: generateDescription_def checkRateLimit_def checkMonthlyLimit_def absent_def
      plain_request_shop request_key_def[symmetric] request_prompt_def[symmetric]
      store_eqs sur_fields fresh_world_fields fresh_world_store cache_lookup_def attempts_unfold
      service_limits settle_array stringify_array array_description accept_result_def
      sanitize_description_def sanitizeHTML_def Let_def del: JSON_stringify.simps)

lemma rerun_array:
  "fst (generateDescription default_service id (surroundings_of True (always (chat_response array_answer)))
     plain_request
     (fresh_world\<lparr>
        kv := [request_key plain_request \<mapsto> array_answer],
        ttl := [request_key plain_request \<mapsto> 86400],
        tick := 3, fetches := 1,
        trace := [Connect True, Store (Get (request_key plain_request)) True,
                  Attempt 1, Fetch (request_prompt plain_request) 25000,
                  Store (Setex (request_key plain_request) 86400 array_answer) True] \<rparr>))
   = Inr (JArr [JObj [(''description'', JStr ''<p>Soft wool</p><script>x()</script>''), (''socials'', JNull)]] [])"
  by (simp add: generateDescription_def checkRateLimit_def checkMonthlyLimit_def absent_def
      plain_request_shop request_key_def[symmetric] request_prompt_def[symmetric]
      store_eqs sur_fields cache_lookup_def parse_array_answer array_answer_text Let_def)

text \<open>
  C7. An upstream answer whose text is a JSON array passes the object test of
  \<open>_callDeepSeekHTTP\<close>, and the two defaults are set as properties of the array.
  The description of the array is the empty string, so nothing is sanitised, and
  \<open>JSON.stringify\<close> leaves the properties of an array out: the entry written for 24 hours
  is the text of the bare array, with the markup of the upstream answer in it. The call
  returns a result with a description and \<open>socials\<close>; the next call with the same request
  is served from the cache and returns the array, which has neither.
\<close>

theorem cache_entry_of_array_answer:
  "fst (generateDescription default_service id (surroundings_of True (always (chat_response array_answer)))
          plain_request fresh_world)
     = Inr (JArr [JObj [(''description'', JStr ''<p>Soft wool</p><script>x()</script>''), (''socials'', JNull)]]
              [(''description'', JStr []), (''socials'', JNull)])
   \<and> kv (snd (generateDescription default_service id (surroundings_of True (always (chat_response array_answer)))
          plain_request fresh_world)) (request_key plain_request)
     = Some array_answer
   \<and> ttl (snd (generateDescription default_service id (surroundings_of True (always (chat_response array_answer)))
          plain_request fresh_world)) (request_key plain_request)
     = Some 86400
   \<and> JSON_parse array_answer
     = Some (JArr [JObj [(''description'', JStr ''<p>Soft wool</p><script>x()</script>''), (''socials'', JNull)]] [])
   \<and> js_get (JArr [JObj [(''description'', JStr ''<p>Soft wool</p><script>x()</script>''), (''socials'', JNull)]] [])
        ''description'' = None
   \<and> fst (generateDescription default_service id (surroundings_of True (always (chat_response array_answer)))
          plain_request
          (snd (generateDescription default_service id (surroundings_of True (always (chat_response array_answer)))
             plain_request fresh_world)))
     = Inr (JArr [JObj [(''description'', JStr ''<p>Soft wool</p><script>x()</script>''), (''socials'', JNull)]] [])"
proof (intro conjI)
  let ?sur = "surroundings_of True (always (chat_response array_answer))"
  let ?run = "generateDescription default_service id ?sur plain_request fresh_world"
  let ?entry = "JArr [JObj [(''description'', JStr ''<p>Soft wool</p><script>x()</script>''), (''socials'', JNull)]] []"
  show "fst ?run = Inr (JArr [JObj [(''description'', JStr ''<p>Soft wool</p><script>x()</script>''), (''socials'', JNull)]]
              [(''description'', JStr []), (''socials'', JNull)])"
    by (simp add: run_array)
  show "kv (snd ?run) (request_key plain_request) = Some array_answer"
    by (simp add: run_array)
  show "ttl (snd ?run) (request_key plain_request) = Some 86400"
    by (simp add: run_array)
  show "JSON_parse array_answer = Some ?entry"
    by (rule parse_array_answer)
  show "js_get ?entry ''description'' = None"
    by (simp add: array_description)
  show "fst (generateDescription default_service id ?sur plain_request (snd ?run)) = Inr ?entry"
    unfolding run_array snd_conv by (rule rerun_array)
qed

section \<open>Properties of store failures\<close>





















end
